theory Spec2Isabelle
  imports Complex_Main "HOL-Library.AList"
begin

section \<open>Data model of \<open>main.py\<close>\<close>

text \<open>
  Python floats are modelled as exact reals, epoch numbers and element counts as natural
  numbers. Output on stdout, TensorBoard scalars and the timing meters are not modelled;
  what is handed to the storage collaborators (\<open>save_checkpoint\<close>, \<open>pickle.dump\<close>,
  \<open>write_result_to_csv\<close>) and every call of the trainer is recorded in an event log.
\<close>

datatype error =
    ValueError string
  | ZeroDivisionError
  | TypeError
  | SystemExit string

text \<open>The fields of the global \<open>args\<close> object that \<open>main.py\<close> reads or writes.\<close>

record args =
  conv_type :: string
  prune_rate :: real
  prune_rate_epoch :: nat
  start_epoch :: "nat option"
  epochs :: nat
  save_every :: int
  evaluate :: bool
  resume :: bool
  first_layer_dense :: bool
  first_layer_type :: string
  bn_init :: bool
  freeze_weights :: bool

text \<open>
  Tensors are flattened to lists of reals and live in a store; a module refers to its
  tensors by address, so that \<open>clone()\<close> (a fresh cell) and in-place writes of a
  collaborator can be told apart. \<open>prune_threshold\<close> is \<open>None\<close> for a module without that
  attribute (\<open>hasattr\<close> is false).
\<close>

type_synonym tensor = "real list"
type_synonym addr = nat
type_synonym heap = "tensor list"

record module =
  clamped_scores :: addr
  weight :: addr
  prune_threshold :: "real option"

type_synonym model = "(string \<times> module) list"

text \<open>
  \<open>GetGlobalSubnet.apply\<close> lives in \<open>utils.conv_type\<close>, outside \<open>main.py\<close>. It is a
  parameter: given the contents of its two tensor arguments and the threshold it returns
  its output tensor together with the contents it leaves in the two arguments.
\<close>

type_synonym subnet = "tensor \<Rightarrow> tensor \<Rightarrow> real \<Rightarrow> tensor \<times> tensor \<times> tensor"

definition clone :: "addr \<Rightarrow> heap \<Rightarrow> addr \<times> heap" where
  "clone a h = (length h, h @ [h ! a])"

definition apply_subnet :: "subnet \<Rightarrow> addr \<Rightarrow> addr \<Rightarrow> real \<Rightarrow> heap \<Rightarrow> tensor \<times> heap" where
  "apply_subnet sn a_s a_w k h =
     (case sn (h ! a_s) (h ! a_w) k of
        (out, s', w') \<Rightarrow> (out, (h[a_s := s'])[a_w := w']))"

definition count_nonzero :: "tensor \<Rightarrow> nat" where
  "count_nonzero w = length (filter (\<lambda>x. x \<noteq> 0) w)"

section \<open>\<open>global_prune_rate\<close>\<close>

record counters =
  prune_dict :: "(string \<times> real) list"
  total_weights :: nat
  unpruned_weights :: nat

text \<open>The body of the loop over \<open>model.named_modules()\<close>, lines 618-638.\<close>

fun layer_loop :: "subnet \<Rightarrow> model \<Rightarrow> counters \<Rightarrow> heap \<Rightarrow> (error + counters) \<times> heap" where
  "layer_loop sn [] c h = (Inr c, h)"
| "layer_loop sn ((n, m) # rest) c h =
     (case prune_threshold m of
        None \<Rightarrow> layer_loop sn rest c h
      | Some thr \<Rightarrow>
          (case clone (clamped_scores m) h of (tmp_scores, h1) \<Rightarrow>
           let layer_total = length (h1 ! tmp_scores) in
           (case clone (weight m) h1 of (tmp_weight, h2) \<Rightarrow>
            (case apply_subnet sn tmp_scores tmp_weight thr h2 of (w, h3) \<Rightarrow>
             let layer_unpruned = count_nonzero w in
             if layer_total = 0 then (Inl ZeroDivisionError, h3)
             else
               let layer_prune_rate = 1 - real layer_unpruned / real layer_total in
               layer_loop sn rest
                 \<lparr>prune_dict = AList.update n (100 * layer_prune_rate) (prune_dict c),
                  total_weights = total_weights c + layer_total,
                  unpruned_weights = unpruned_weights c + layer_unpruned\<rparr> h3))))"

definition global_prune_rate ::
  "subnet \<Rightarrow> model \<Rightarrow> heap \<Rightarrow> (error + real \<times> (string \<times> real) list) \<times> heap" where
  "global_prune_rate sn mdl h =
     (case layer_loop sn mdl \<lparr>prune_dict = [], total_weights = 0, unpruned_weights = 0\<rparr> h of
        (Inl e, h') \<Rightarrow> (Inl e, h')
      | (Inr c, h') \<Rightarrow>
          if total_weights c = 0 then (Inl ZeroDivisionError, h')
          else
            let final_prune_rate = 1 - real (unpruned_weights c) / real (total_weights c)
            in (Inr (1 - final_prune_rate, prune_dict c), h'))"

text \<open>
  Modelled from the spec: \<open>GetGlobalSubnet.apply\<close> of \<open>utils.conv_type\<close> is not part of
  \<open>main.py\<close>; the spec gives each layer's mask as \<open>|score_i| >= t\<close> elementwise and has
  the solver read scores only. Used for concrete runs.
\<close>

definition GetGlobalSubnet :: subnet where
  "GetGlobalSubnet scores weights k =
     (map (\<lambda>s. if \<bar>s\<bar> \<ge> k then 1 else 0) scores, scores, weights)"

subsection \<open>What the report is compared with\<close>

text \<open>
  Number of elements and mask of a prunable layer, read from the store the function starts
  in; \<open>prunable\<close> are the modules the loop does not skip; \<open>allocated\<close> says that every
  tensor of the model is a cell of the store (Python has no dangling references).
\<close>

definition layer_elements :: "heap \<Rightarrow> module \<Rightarrow> nat" where
  "layer_elements h m = length (h ! clamped_scores m)"

definition layer_mask :: "subnet \<Rightarrow> heap \<Rightarrow> module \<Rightarrow> tensor" where
  "layer_mask sn h m =
     (case prune_threshold m of
        None \<Rightarrow> []
      | Some thr \<Rightarrow> fst (sn (h ! clamped_scores m) (h ! weight m) thr))"

definition prunable :: "model \<Rightarrow> model" where
  "prunable mdl = filter (\<lambda>(n, m). prune_threshold m \<noteq> None) mdl"

definition allocated :: "model \<Rightarrow> heap \<Rightarrow> bool" where
  "allocated mdl h = (\<forall>(n, m) \<in> set mdl. clamped_scores m < length h \<and> weight m < length h)"

text \<open>The loop of \<open>layer_loop\<close> with every read resolved in a fixed store \<open>h0\<close>.\<close>

fun report_loop :: "subnet \<Rightarrow> heap \<Rightarrow> model \<Rightarrow> counters \<Rightarrow> error + counters" where
  "report_loop sn h0 [] c = Inr c"
| "report_loop sn h0 ((n, m) # rest) c =
     (case prune_threshold m of
        None \<Rightarrow> report_loop sn h0 rest c
      | Some thr \<Rightarrow>
          if layer_elements h0 m = 0 then Inl ZeroDivisionError
          else report_loop sn h0 rest
                 \<lparr>prune_dict = AList.update n
                    (100 * (1 - real (count_nonzero (layer_mask sn h0 m)) / real (layer_elements h0 m)))
                    (prune_dict c),
                  total_weights = total_weights c + layer_elements h0 m,
                  unpruned_weights = unpruned_weights c + count_nonzero (layer_mask sn h0 m)\<rparr>)"

definition unpruned_sum :: "subnet \<Rightarrow> heap \<Rightarrow> model \<Rightarrow> nat" where
  "unpruned_sum sn h mdl = (\<Sum>(n, m)\<leftarrow>prunable mdl. count_nonzero (layer_mask sn h m))"

definition elements_sum :: "heap \<Rightarrow> model \<Rightarrow> nat" where
  "elements_sum h mdl = (\<Sum>(n, m)\<leftarrow>prunable mdl. layer_elements h m)"

definition nonempty_layers :: "model \<Rightarrow> heap \<Rightarrow> bool" where
  "nonempty_layers mdl h = (\<forall>(n, m) \<in> set (prunable mdl). 0 < layer_elements h m)"

text \<open>Projections of what \<open>global_prune_rate\<close> returns: the aggregate, \<open>prune_dict.get(n)\<close>
  and the set of keys of \<open>prune_dict\<close>.\<close>

definition aggregate_of :: "(error + real \<times> (string \<times> real) list) \<times> heap \<Rightarrow> error + real" where
  "aggregate_of r = (case fst r of Inl e \<Rightarrow> Inl e | Inr (g, d) \<Rightarrow> Inr g)"

definition report_entry ::
  "(error + real \<times> (string \<times> real) list) \<times> heap \<Rightarrow> string \<Rightarrow> error + real option" where
  "report_entry r n = (case fst r of Inl e \<Rightarrow> Inl e | Inr (g, d) \<Rightarrow> Inr (map_of d n))"

definition report_keys ::
  "(error + real \<times> (string \<times> real) list) \<times> heap \<Rightarrow> error + string set" where
  "report_keys r = (case fst r of Inl e \<Rightarrow> Inl e | Inr (g, d) \<Rightarrow> Inr (fst ` set d))"

subsection \<open>A small model\<close>

text \<open>Two prunable layers (four and two scores) around a module without
  \<open>prune_threshold\<close>; the stored threshold is 1/2. Cell 1 is a
  tensor no module of the list refers to.\<close>

definition example_heap :: heap where
  "example_heap = [[9/10, 1/10, 2/10, 1/20], [1/2], [1, 2, 3, 4], [1], [6/10, 3/10], [5, 6]]"

definition example_model :: model where
  "example_model =
     [(''conv1'', \<lparr>clamped_scores = 0, weight = 2, prune_threshold = Some (1/2)\<rparr>),
      (''bn1'', \<lparr>clamped_scores = 3, weight = 3, prune_threshold = None\<rparr>),
      (''fc'', \<lparr>clamped_scores = 4, weight = 5, prune_threshold = Some (1/2)\<rparr>)]"

section \<open>\<open>main_worker\<close>\<close>

text \<open>
  The collaborators of \<open>main_worker\<close> are parameters. The trainer receives the epoch, the
  \<open>args\<close> object (read only) and the model, and returns top-1 and top-5 accuracy and the model
  it leaves behind; \<open>new_model\<close> is \<open>models.__dict__[args.arch]()\<close>; \<open>prepare\<close> stands for
  \<open>set_gpu\<close>, \<open>pretrained\<close>, \<open>get_optimizer\<close>, \<open>get_dataset\<close> and \<open>get_policy\<close>;
  \<open>checkpoint_file\<close> is what \<open>torch.load(args.resume)\<close> finds (\<open>None\<close> when there is no
  such file): its \<open>epoch\<close>, its \<open>best_acc1\<close> and the model state it restores;
  \<open>sample_means\<close> gives, for each \<open>SampleSubnetConv\<close> module, the ten means of
  \<open>torch.rand_like(m.clamped_scores) >= m.clamped_scores\<close> drawn after an epoch.
  \<open>lr_policy\<close>, \<open>modifier\<close> and \<open>get_directories\<close> are not modelled.
\<close>

record env =
  new_model :: "model \<times> heap"
  set_model_prune_rate :: "model \<times> heap \<Rightarrow> real \<Rightarrow> model \<times> heap"
  bn_weight_init :: "model \<times> heap \<Rightarrow> model \<times> heap"
  freeze_model_weights :: "model \<times> heap \<Rightarrow> model \<times> heap"
  prepare :: "model \<times> heap \<Rightarrow> model \<times> heap"
  checkpoint_file :: "(nat \<times> real \<times> (model \<times> heap)) option"
  train :: "nat \<Rightarrow> args \<Rightarrow> model \<times> heap \<Rightarrow> real \<times> real \<times> (model \<times> heap)"
  validate :: "nat option \<Rightarrow> args \<Rightarrow> model \<times> heap \<Rightarrow> real \<times> real \<times> (model \<times> heap)"
  sample_means :: "nat \<Rightarrow> model \<times> heap \<Rightarrow> real list list"
  GetGlobalSubnet_apply :: subnet

datatype ckpt_name = initial_state | epoch_most_recent | epoch_state nat

record csv_row =
  csv_best_acc1 :: real
  csv_best_acc5 :: real
  csv_best_train_acc1 :: real
  csv_best_train_acc5 :: real
  csv_prune_rate :: real
  csv_curr_acc1 :: real
  csv_curr_acc5 :: real
  csv_epochs :: nat

text \<open>
  The calls that leave \<open>main_worker\<close>: \<open>Train e r\<close> and \<open>Validate e r\<close> are calls of the
  trainer with \<open>args.prune_rate = r\<close>; \<open>SaveCheckpoint f e r is_best save\<close> is a call of
  \<open>save_checkpoint\<close> with file name \<open>f\<close> and the entries \<open>"epoch": e\<close>, \<open>"prune_rate": r\<close>;
  \<open>PickleDump d\<close> is \<open>pickle.dump(prune_dict, f)\<close>; \<open>WriteCsv row\<close> is the line appended by
  \<open>write_result_to_csv\<close>.
\<close>

datatype event =
    Train nat real
  | Validate "nat option" real
  | SaveCheckpoint ckpt_name nat real bool bool
  | PickleDump "(string \<times> real) list"
  | WriteCsv csv_row

record state =
  args :: args
  model :: model
  heap :: heap
  acc1 :: "real option"
  acc5 :: real
  best_acc1 :: "real option"
  best_acc5 :: real
  best_train_acc1 :: real
  best_train_acc5 :: real
  events :: "event list"

definition start_state :: "args \<Rightarrow> state" where
  "start_state a =
     \<lparr>args = a, model = [], heap = [], acc1 = Some 0, acc5 = 0, best_acc1 = Some 0,
      best_acc5 = 0, best_train_acc1 = 0, best_train_acc5 = 0, events = []\<rparr>"

definition get_model :: "env \<Rightarrow> state \<Rightarrow> error option \<times> state" where
  "get_model E st0 =
     (let st = (if first_layer_dense (args st0)
                then st0\<lparr>args := (args st0)\<lparr>first_layer_type := ''DenseConv''\<rparr>\<rparr> else st0);
          mdl = new_model E;
          rest = (\<lambda>mdl1.
             let mdl2 = (if bn_init (args st) then bn_weight_init E mdl1 else mdl1);
                 mdl3 = (if freeze_weights (args st) then freeze_model_weights E mdl2 else mdl2)
             in (None, st\<lparr>model := fst mdl3, heap := snd mdl3\<rparr>))
      in if conv_type (args st) \<noteq> ''DenseConv''
            \<and> conv_type (args st) \<noteq> ''SampleSubnetConv''
            \<and> conv_type (args st) \<noteq> ''ContinuousSparseConv''
         then (if prune_rate (args st) < 0
               then (Some (ValueError ''Need to set a positive prune rate''), st)
               else rest (set_model_prune_rate E mdl (prune_rate (args st))))
         else rest mdl)"

definition resume_checkpoint :: "env \<Rightarrow> state \<Rightarrow> state" where
  "resume_checkpoint E st =
     (case checkpoint_file E of
        Some (ck_epoch, ck_best_acc1, ck_model) \<Rightarrow>
          st\<lparr>args := (if start_epoch (args st) = None
                       then (args st)\<lparr>start_epoch := Some ck_epoch\<rparr> else args st),
             model := fst ck_model, heap := snd ck_model,
             best_acc1 := Some ck_best_acc1\<rparr>
      | None \<Rightarrow> st\<lparr>best_acc1 := None\<rparr>)"

text \<open>Lines 182-190: the annealing of \<open>args.prune_rate\<close> at the head of the epoch loop.\<close>

definition anneal :: "real \<Rightarrow> nat \<Rightarrow> state \<Rightarrow> state" where
  "anneal final_prune_rate epoch st =
     (if conv_type (args st) = ''GlobalSubnetConv'' \<and> epoch < prune_rate_epoch (args st) then
        (if prune_rate (args st) \<le> 0.5 then
           let prune_decay = (1 - (real epoch / real (prune_rate_epoch (args st)))) ^ 3;
               curr_prune_rate =
                 (1 - final_prune_rate) + ((0.5 - (1 - final_prune_rate)) * prune_decay)
           in st\<lparr>args := (args st)\<lparr>prune_rate := 1 - curr_prune_rate\<rparr>\<rparr>
         else st)
      else if conv_type (args st) = ''GlobalSubnetConv'' \<and> epoch = prune_rate_epoch (args st) then
        st\<lparr>args := (args st)\<lparr>prune_rate := final_prune_rate\<rparr>\<rparr>
      else st)"


text \<open>Lines 199-216: one epoch of training and validation and the update of the best
  accuracies; \<open>acc1 > best_acc1\<close> raises \<open>TypeError\<close> when \<open>resume\<close> returned \<open>None\<close>.\<close>

definition train_validate :: "env \<Rightarrow> nat \<Rightarrow> state \<Rightarrow> (error + bool) \<times> state" where
  "train_validate E epoch st =
     (case train E epoch (args st) (model st, heap st) of
        (train_acc1, train_acc5, mdl1) \<Rightarrow>
     (case validate E (Some epoch) (args st) mdl1 of
        (a1, a5, mdl2) \<Rightarrow>
        let st1 = st\<lparr>model := fst mdl2, heap := snd mdl2, acc1 := Some a1, acc5 := a5,
                     events := events st @ [Train epoch (prune_rate (args st)),
                                            Validate (Some epoch) (prune_rate (args st))]\<rparr>
        in (case best_acc1 st1 of
              None \<Rightarrow> (Inl TypeError, st1)
            | Some b1 \<Rightarrow>
                let is_best = (a1 > b1)
                in (Inr is_best,
                    st1\<lparr>best_acc1 := Some (max a1 b1),
                        best_acc5 := max a5 (best_acc5 st1),
                        best_train_acc1 := max train_acc1 (best_train_acc1 st1),
                        best_train_acc5 := max train_acc5 (best_train_acc5 st1)\<rparr>))))"

text \<open>Lines 221-282: \<open>epoch % args.save_every\<close> raises when \<open>save_every\<close> is 0.\<close>

definition save_checkpoints :: "nat \<Rightarrow> bool \<Rightarrow> state \<Rightarrow> error option \<times> state" where
  "save_checkpoints epoch is_best st =
     (if save_every (args st) = 0 then (Some ZeroDivisionError, st)
      else
        let save = ((int epoch mod save_every (args st) = 0) \<and> save_every (args st) > 0)
        in if is_best \<or> save \<or> int epoch = int (epochs (args st)) - 1
           then (None, st\<lparr>events := events st @
                   [SaveCheckpoint epoch_most_recent (epoch + 1) (prune_rate (args st)) is_best save,
                    SaveCheckpoint (epoch_state epoch) (epoch + 1) (prune_rate (args st)) is_best save]\<rparr>)
           else (None, st))"

text \<open>Lines 291-311: the average sampled prune rate replaces \<open>args.prune_rate\<close>.\<close>

definition sample_prune_rate :: "env \<Rightarrow> nat \<Rightarrow> state \<Rightarrow> error option \<times> state" where
  "sample_prune_rate E epoch st =
     (if conv_type (args st) = ''SampleSubnetConv'' then
        let prs = map (\<lambda>samples. sum_list samples / 10) (sample_means E epoch (model st, heap st));
            count = length prs;
            sum_pr = sum_list prs
        in if count = 0 then (Some ZeroDivisionError, st)
           else (None, st\<lparr>args := (args st)\<lparr>prune_rate := sum_pr / real count\<rparr>\<rparr>)
      else (None, st))"

text \<open>The body of the epoch loop, lines 180-314.\<close>

definition epoch_body :: "env \<Rightarrow> real \<Rightarrow> nat \<Rightarrow> state \<Rightarrow> error option \<times> state" where
  "epoch_body E final_prune_rate epoch st =
     (case train_validate E epoch (anneal final_prune_rate epoch st) of
        (Inl e, st1) \<Rightarrow> (Some e, st1)
      | (Inr is_best, st1) \<Rightarrow>
          (case best_acc1 st1 of
             None \<Rightarrow> (Some TypeError, st1)
           | Some b1 \<Rightarrow>
               if b1 < 2 \<and> epoch > 1
               then (Some (SystemExit ''Terminating early: Network is not learning''), st1)
               else (case save_checkpoints epoch is_best st1 of
                       (Some e, st2) \<Rightarrow> (Some e, st2)
                     | (None, st2) \<Rightarrow> sample_prune_rate E epoch st2)))"

fun run_epochs :: "env \<Rightarrow> real \<Rightarrow> nat list \<Rightarrow> state \<Rightarrow> error option \<times> state" where
  "run_epochs E final_prune_rate [] st = (None, st)"
| "run_epochs E final_prune_rate (epoch # rest) st =
     (case epoch_body E final_prune_rate epoch st of
        (Some e, st') \<Rightarrow> (Some e, st')
      | (None, st') \<Rightarrow> run_epochs E final_prune_rate rest st')"

text \<open>\<open>write_result_to_csv\<close>: formatting \<open>None\<close> with \<open>:.02f\<close> raises \<open>TypeError\<close>. The
  configuration values copied into the row and the header line are left out.\<close>

definition write_result_to_csv :: "state \<Rightarrow> error option \<times> state" where
  "write_result_to_csv st =
     (case (acc1 st, best_acc1 st) of
        (Some c1, Some b1) \<Rightarrow>
          (None, st\<lparr>events := events st @
             [WriteCsv \<lparr>csv_best_acc1 = b1, csv_best_acc5 = best_acc5 st,
                        csv_best_train_acc1 = best_train_acc1 st,
                        csv_best_train_acc5 = best_train_acc5 st,
                        csv_prune_rate = prune_rate (args st),
                        csv_curr_acc1 = c1, csv_curr_acc5 = acc5 st,
                        csv_epochs = epochs (args st)\<rparr>]\<rparr>)
      | _ \<Rightarrow> (Some TypeError, st))"

text \<open>Lines 318-348. \<open>global_pr\<close> is bound in both branches and not used afterwards.\<close>

definition finalize :: "env \<Rightarrow> state \<Rightarrow> error option \<times> state" where
  "finalize E st =
     (case (if conv_type (args st) = ''GlobalSubnetConv'' then
              (case global_prune_rate (GetGlobalSubnet_apply E) (model st) (heap st) of
                 (Inl e, h') \<Rightarrow> Inl (e, st\<lparr>heap := h'\<rparr>)
               | (Inr (global_pr, pdict), h') \<Rightarrow>
                   Inr (global_pr, st\<lparr>heap := h', events := events st @ [PickleDump pdict]\<rparr>))
            else Inr (prune_rate (args st), st)) of
        Inl (e, st') \<Rightarrow> (Some e, st')
      | Inr (global_pr, st') \<Rightarrow> write_result_to_csv st')"

text \<open>Lines 57-175: everything before the epoch loop. \<open>Inl\<close> is a run that ends there (an
  error of \<open>get_model\<close>, or the return after \<open>args.evaluate\<close>), \<open>Inr\<close> the state the loop
  starts in.\<close>

definition worker_setup :: "env \<Rightarrow> args \<Rightarrow> (error option \<times> state) + state" where
  "worker_setup E a =
     (case get_model E (start_state a) of
        (Some e, st) \<Rightarrow> Inl (Some e, st)
      | (None, st1) \<Rightarrow>
          let mdl = prepare E (model st1, heap st1);
              st2 = st1\<lparr>model := fst mdl, heap := snd mdl\<rparr>;
              st3 = (if resume (args st2) then resume_checkpoint E st2 else st2)
          in if evaluate (args st3) then
               (case validate E (start_epoch (args st3)) (args st3) (model st3, heap st3) of
                  (a1, a5, mdl') \<Rightarrow>
                    Inl (None, st3\<lparr>model := fst mdl', heap := snd mdl', acc1 := Some a1, acc5 := a5,
                                   events := events st3 @
                                     [Validate (start_epoch (args st3)) (prune_rate (args st3))]\<rparr>))
             else
               let st4 = st3\<lparr>args := (args st3)\<lparr>start_epoch :=
                                 Some (case start_epoch (args st3) of None \<Rightarrow> 0 | Some n \<Rightarrow> n)\<rparr>,
                              acc1 := None\<rparr>
               in Inr (st4\<lparr>events := events st4 @
                          [SaveCheckpoint initial_state 0 (prune_rate (args st4)) False False]\<rparr>))"

definition first_epoch :: "state \<Rightarrow> nat" where
  "first_epoch st = (case start_epoch (args st) of None \<Rightarrow> 0 | Some n \<Rightarrow> n)"

definition main_worker :: "env \<Rightarrow> args \<Rightarrow> error option \<times> state" where
  "main_worker E a =
     (case worker_setup E a of
        Inl r \<Rightarrow> r
      | Inr st \<Rightarrow>
          let final_prune_rate = prune_rate (args st)
          in (case run_epochs E final_prune_rate [first_epoch st ..< epochs (args st)] st of
                (Some e, st') \<Rightarrow> (Some e, st')
              | (None, st') \<Rightarrow> finalize E st'))"

subsection \<open>Reading the event log\<close>

fun pickle_dumps :: "event list \<Rightarrow> (string \<times> real) list list" where
  "pickle_dumps [] = []"
| "pickle_dumps (PickleDump d # evs) = d # pickle_dumps evs"
| "pickle_dumps (ev # evs) = pickle_dumps evs"

fun csv_rows :: "event list \<Rightarrow> csv_row list" where
  "csv_rows [] = []"
| "csv_rows (WriteCsv row # evs) = row # csv_rows evs"
| "csv_rows (ev # evs) = csv_rows evs"

fun trained :: "event list \<Rightarrow> (nat \<times> real) list" where
  "trained [] = []"
| "trained (Train e r # evs) = (e, r) # trained evs"
| "trained (ev # evs) = trained evs"

fun is_save :: "event \<Rightarrow> bool" where
  "is_save (SaveCheckpoint f e r b s) = True"
| "is_save ev = False"

subsection \<open>A small run\<close>

text \<open>
  A configuration of three epochs with an annealing horizon of two, and collaborators
  that build the small model, leave it as it is and report the validation top-1
  accuracy \<open>v\<close>; each sampled mean of the one \<open>SampleSubnetConv\<close> module is 1/4.
\<close>

definition example_args :: "string \<Rightarrow> real \<Rightarrow> args" where
  "example_args ct r =
     \<lparr>conv_type = ct, prune_rate = r, prune_rate_epoch = 2, start_epoch = None, epochs = 3,
      save_every = - 1, evaluate = False, resume = False, first_layer_dense = False,
      first_layer_type = ''SubnetConv'', bn_init = False, freeze_weights = True\<rparr>"

definition example_env :: "real \<Rightarrow> env" where
  "example_env v =
     \<lparr>new_model = (example_model, example_heap),
      set_model_prune_rate = (\<lambda>mdl r. mdl),
      bn_weight_init = (\<lambda>mdl. mdl),
      freeze_model_weights = (\<lambda>mdl. mdl),
      prepare = (\<lambda>mdl. mdl),
      checkpoint_file = None,
      train = (\<lambda>epoch a mdl. (50, 90, mdl)),
      validate = (\<lambda>epoch a mdl. (v, 95, mdl)),
      sample_means = (\<lambda>epoch mdl. [[1/4, 1/4, 1/4, 1/4, 1/4, 1/4, 1/4, 1/4, 1/4, 1/4]]),
      GetGlobalSubnet_apply = GetGlobalSubnet\<rparr>"

text \<open>The state in which the epoch loop of the small run starts.\<close>

definition example_start :: "string \<Rightarrow> real \<Rightarrow> state" where
  "example_start ct r =
     \<lparr>args = (example_args ct r)\<lparr>start_epoch := Some 0\<rparr>,
      model = example_model, heap = example_heap, acc1 = None, acc5 = 0, best_acc1 = Some 0,
      best_acc5 = 0, best_train_acc1 = 0, best_train_acc5 = 0,
      events = [SaveCheckpoint initial_state 0 r False False]\<rparr>"

section \<open>Properties of \<open>global_prune_rate\<close>\<close>

lemma prefix_nth: "take k h = h0 \<Longrightarrow> a < length h0 \<Longrightarrow> h ! a = h0 ! a"
  by (metis length_take min_less_iff_conj nth_take)

lemma prefix_len: "take (length h0) h = h0 \<Longrightarrow> length h0 \<le> length h"
  by (metis length_take min.cobounded1)

lemma layer_step:
  assumes pre: "take (length h0) h = h0"
    and a: "clamped_scores m < length h0" "weight m < length h0"
    and thr: "prune_threshold m = Some thr"
  shows "\<exists>h3. clone (clamped_scores m) h = (length h, h @ [h0 ! clamped_scores m])
     \<and> clone (weight m) (h @ [h0 ! clamped_scores m])
         = (Suc (length h), h @ [h0 ! clamped_scores m, h0 ! weight m])
     \<and> apply_subnet sn (length h) (Suc (length h)) thr (h @ [h0 ! clamped_scores m, h0 ! weight m])
         = (layer_mask sn h0 m, h3)
     \<and> take (length h0) h3 = h0"
proof -
  have len: "length h0 \<le> length h" using pre by (rule prefix_len)
  have s: "h ! clamped_scores m = h0 ! clamped_scores m" using pre a(1) by (rule prefix_nth)
  have w: "h ! weight m = h0 ! weight m" using pre a(2) by (rule prefix_nth)
  have w': "(h @ [h0 ! clamped_scores m]) ! weight m = h0 ! weight m"
    using w a(2) len by (simp add: nth_append)
  let ?h2 = "h @ [h0 ! clamped_scores m, h0 ! weight m]"
  have r1: "?h2 ! length h = h0 ! clamped_scores m" by (simp add: nth_append)
  have r2: "?h2 ! Suc (length h) = h0 ! weight m" by (simp add: nth_append)
  obtain out s' w' where o: "sn (h0 ! clamped_scores m) (h0 ! weight m) thr = (out, s', w')"
    by (cases "sn (h0 ! clamped_scores m) (h0 ! weight m) thr") auto
  have ap: "apply_subnet sn (length h) (Suc (length h)) thr ?h2
      = (layer_mask sn h0 m, (?h2[length h := s'])[Suc (length h) := w'])"
    unfolding apply_subnet_def r1 r2 o by (simp add: layer_mask_def thr o)
  have tk: "take (length h0) ((?h2[length h := s'])[Suc (length h) := w']) = h0"
    using len pre by simp
  show ?thesis
    using ap tk s w' by (auto simp: clone_def)
qed

lemma layer_loop_report:
  assumes "allocated mdl h0" "take (length h0) h = h0"
  shows "fst (layer_loop sn mdl c h) = report_loop sn h0 mdl c
       \<and> take (length h0) (snd (layer_loop sn mdl c h)) = h0"
  using assms
proof (induction mdl arbitrary: c h)
  case Nil
  then show ?case by simp
next
  case (Cons p mdl)
  obtain n m where p: "p = (n, m)" by (cases p)
  have al: "allocated mdl h0" and a: "clamped_scores m < length h0" "weight m < length h0"
    using Cons.prems(1) by (auto simp: allocated_def p)
  show ?case
  proof (cases "prune_threshold m")
    case None
    then show ?thesis using Cons.IH[OF al Cons.prems(2)] by (simp add: p)
  next
    case (Some thr)
    from layer_step[OF Cons.prems(2) a Some, of sn]
    obtain h3 where
      c1: "clone (clamped_scores m) h = (length h, h @ [h0 ! clamped_scores m])" and
      c2: "clone (weight m) (h @ [h0 ! clamped_scores m])
         = (Suc (length h), h @ [h0 ! clamped_scores m, h0 ! weight m])" and
      c3: "apply_subnet sn (length h) (Suc (length h)) thr (h @ [h0 ! clamped_scores m, h0 ! weight m])
         = (layer_mask sn h0 m, h3)" and
      c4: "take (length h0) h3 = h0" by blast
    show ?thesis
      using Cons.IH[OF al c4] Cons.prems(2)
      by (simp add: p Some c1 c2 c3 c4 layer_elements_def Let_def)
  qed
qed

lemma report_loop_totals:
  "report_loop sn h0 mdl c = Inr c' \<Longrightarrow>
     total_weights c' = total_weights c + (\<Sum>(n, m)\<leftarrow>prunable mdl. layer_elements h0 m)
   \<and> unpruned_weights c' =
       unpruned_weights c + (\<Sum>(n, m)\<leftarrow>prunable mdl. count_nonzero (layer_mask sn h0 m))"
proof (induction mdl arbitrary: c)
  case Nil
  then show ?case by (simp add: prunable_def)
next
  case (Cons p mdl)
  obtain n m where p: "p = (n, m)" by (cases p)
  show ?case
  proof (cases "prune_threshold m")
    case None
    then show ?thesis using Cons by (simp add: p prunable_def)
  next
    case (Some thr)
    then show ?thesis
      using Cons.prems Cons.IH by (auto simp: p prunable_def split: if_splits)
  qed
qed

lemma report_loop_keys:
  "report_loop sn h0 mdl c = Inr c' \<Longrightarrow>
     fst ` set (prune_dict c') = fst ` set (prune_dict c) \<union> fst ` set (prunable mdl)"
proof (induction mdl arbitrary: c)
  case Nil
  then show ?case by (simp add: prunable_def)
next
  case (Cons p mdl)
  obtain n m where p: "p = (n, m)" by (cases p)
  show ?case
  proof (cases "prune_threshold m")
    case None
    then show ?thesis using Cons by (simp add: p prunable_def)
  next
    case (Some thr)
    then show ?thesis
      using Cons.prems Cons.IH
      by (auto simp: p prunable_def dom_update split: if_splits)
  qed
qed

lemma report_loop_other:
  "report_loop sn h0 mdl c = Inr c' \<Longrightarrow> k \<notin> fst ` set mdl \<Longrightarrow>
     map_of (prune_dict c') k = map_of (prune_dict c) k"
proof (induction mdl arbitrary: c)
  case Nil
  then show ?case by simp
next
  case (Cons p mdl)
  obtain n m where p: "p = (n, m)" by (cases p)
  have k: "k \<noteq> n" "k \<notin> fst ` set mdl" using Cons.prems(2) by (auto simp: p)
  show ?case
  proof (cases "prune_threshold m")
    case None
    then show ?thesis using Cons.prems(1) Cons.IH k by (simp add: p)
  next
    case (Some thr)
    then show ?thesis
      using Cons.prems(1) Cons.IH[OF _ k(2)] k(1)
      by (auto simp: p update_conv' split: if_splits)
  qed
qed

lemma report_loop_lookup:
  "report_loop sn h0 mdl c = Inr c' \<Longrightarrow> distinct (map fst mdl) \<Longrightarrow>
   (k, m) \<in> set (prunable mdl) \<Longrightarrow>
     map_of (prune_dict c') k =
       Some (100 * (1 - real (count_nonzero (layer_mask sn h0 m)) / real (layer_elements h0 m)))"
proof (induction mdl arbitrary: c)
  case Nil
  then show ?case by (simp add: prunable_def)
next
  case (Cons p mdl)
  obtain n0 m0 where p: "p = (n0, m0)" by (cases p)
  have d: "distinct (map fst mdl)" "n0 \<notin> fst ` set mdl" using Cons.prems(2) by (auto simp: p)
  show ?case
  proof (cases "prune_threshold m0")
    case None
    then show ?thesis using Cons.prems Cons.IH d by (simp add: p prunable_def)
  next
    case (Some thr)
    let ?c1 = "\<lparr>prune_dict = AList.update n0
                    (100 * (1 - real (count_nonzero (layer_mask sn h0 m0)) / real (layer_elements h0 m0)))
                    (prune_dict c),
                  total_weights = total_weights c + layer_elements h0 m0,
                  unpruned_weights = unpruned_weights c + count_nonzero (layer_mask sn h0 m0)\<rparr>"
    have r: "report_loop sn h0 mdl ?c1 = Inr c'"
      using Cons.prems(1) Some by (simp add: p split: if_splits)
    show ?thesis
    proof (cases "(k, m) = (n0, m0)")
      case True
      have "map_of (prune_dict c') n0 = map_of (prune_dict ?c1) n0"
        using r d(2) by (rule report_loop_other)
      then show ?thesis using True by (simp add: update_conv')
    next
      case False
      then have "(k, m) \<in> set (prunable mdl)"
        using Cons.prems(3) Some by (auto simp: p prunable_def)
      then show ?thesis using Cons.IH[OF r d(1)] by simp
    qed
  qed
qed

lemma ex_gpr: "global_prune_rate GetGlobalSubnet example_model example_heap =
   (Inr (1/3, [(''conv1'', 75), (''fc'', 50)]),
    example_heap @ [[9/10, 1/10, 2/10, 1/20], [1, 2, 3, 4], [6/10, 3/10], [5, 6]])"
  by (simp add: global_prune_rate_def example_model_def example_heap_def clone_def
      apply_subnet_def GetGlobalSubnet_def count_nonzero_def Let_def)

lemma ex_alloc: "allocated example_model example_heap"
  by (simp add: allocated_def example_model_def example_heap_def)

lemma ex_sums: "unpruned_sum GetGlobalSubnet example_heap example_model = 2"
   "elements_sum example_heap example_model = 6"
  by (simp_all add: unpruned_sum_def elements_sum_def prunable_def layer_mask_def layer_elements_def
     example_model_def example_heap_def GetGlobalSubnet_def count_nonzero_def del: not_None_eq)

lemma report_loop_returns:
  "nonempty_layers mdl h0 \<Longrightarrow> \<exists>c'. report_loop sn h0 mdl c = Inr c'"
proof (induction mdl arbitrary: c)
  case Nil
  then show ?case by simp
next
  case (Cons p mdl)
  obtain n m where p: "p = (n, m)" by (cases p)
  have ne: "nonempty_layers mdl h0"
    using Cons.prems by (auto simp: nonempty_layers_def prunable_def)
  show ?case
  proof (cases "prune_threshold m")
    case None
    then show ?thesis using Cons.IH[OF ne] by (simp add: p)
  next
    case (Some thr)
    then have "0 < layer_elements h0 m"
      using Cons.prems by (simp add: nonempty_layers_def prunable_def p)
    then show ?thesis using Cons.IH[OF ne] Some by (simp add: p)
  qed
qed

lemma global_prune_rate_report:
  assumes "allocated mdl h"
  shows "fst (global_prune_rate sn mdl h) =
     (case report_loop sn h mdl \<lparr>prune_dict = [], total_weights = 0, unpruned_weights = 0\<rparr> of
        Inl e \<Rightarrow> Inl e
      | Inr c \<Rightarrow> if total_weights c = 0 then Inl ZeroDivisionError
                 else Inr (1 - (1 - real (unpruned_weights c) / real (total_weights c)), prune_dict c))"
proof -
  let ?c0 = "\<lparr>prune_dict = [], total_weights = 0, unpruned_weights = 0\<rparr>"
  have "fst (layer_loop sn mdl ?c0 h) = report_loop sn h mdl ?c0"
    using layer_loop_report[OF assms, of h sn ?c0] by simp
  then show ?thesis
    by (cases "layer_loop sn mdl ?c0 h")
       (auto simp: global_prune_rate_def Let_def split: sum.splits)
qed

lemma global_prune_rate_frame:
  assumes "allocated mdl h"
  shows "take (length h) (snd (global_prune_rate sn mdl h)) = h"
proof -
  let ?c0 = "\<lparr>prune_dict = [], total_weights = 0, unpruned_weights = 0\<rparr>"
  have "take (length h) (snd (layer_loop sn mdl ?c0 h)) = h"
    using layer_loop_report[OF assms, of h sn ?c0] by simp
  then show ?thesis
    by (cases "layer_loop sn mdl ?c0 h")
       (auto simp: global_prune_rate_def Let_def split: sum.splits)
qed

lemma global_prune_rate_again:
  assumes "allocated mdl h" "take (length h) h' = h"
  shows "fst (global_prune_rate sn mdl h') = fst (global_prune_rate sn mdl h)"
proof -
  let ?c0 = "\<lparr>prune_dict = [], total_weights = 0, unpruned_weights = 0\<rparr>"
  have "fst (layer_loop sn mdl ?c0 h') = report_loop sn h mdl ?c0"
    using layer_loop_report[OF assms, of sn ?c0] by simp
  moreover have "fst (layer_loop sn mdl ?c0 h) = report_loop sn h mdl ?c0"
    using layer_loop_report[OF assms(1), of h sn ?c0] by simp
  ultimately have "fst (layer_loop sn mdl ?c0 h') = fst (layer_loop sn mdl ?c0 h)" by simp
  then show ?thesis
    by (cases "layer_loop sn mdl ?c0 h'"; cases "layer_loop sn mdl ?c0 h")
       (auto simp: global_prune_rate_def Let_def split: sum.splits)
qed

lemma elements_sum_pos:
  assumes "nonempty_layers mdl h" "prunable mdl \<noteq> []"
  shows "0 < elements_sum h mdl"
proof -
  obtain n m ps where ps: "prunable mdl = (n, m) # ps"
    using assms(2) by (cases "prunable mdl") auto
  then have "0 < layer_elements h m"
    using assms(1) by (simp add: nonempty_layers_def)
  then show ?thesis by (simp add: elements_sum_def ps)
qed

lemma global_prune_rate_returns:
  assumes al: "allocated mdl h" and ne: "nonempty_layers mdl h" and pr: "prunable mdl \<noteq> []"
  shows "\<exists>c.
    report_loop sn h mdl \<lparr>prune_dict = [], total_weights = 0, unpruned_weights = 0\<rparr> = Inr c
    \<and> fst (global_prune_rate sn mdl h)
       = Inr (real (unpruned_sum sn h mdl) / real (elements_sum h mdl), prune_dict c)"
proof -
  let ?c0 = "\<lparr>prune_dict = [], total_weights = 0, unpruned_weights = 0\<rparr>"
  obtain c where c: "report_loop sn h mdl ?c0 = Inr c"
    using report_loop_returns[OF ne] by blast
  have t: "total_weights c = elements_sum h mdl" "unpruned_weights c = unpruned_sum sn h mdl"
    using report_loop_totals[OF c] by (simp_all add: elements_sum_def unpruned_sum_def)
  have pos: "0 < elements_sum h mdl" using ne pr by (rule elements_sum_pos)
  have "fst (global_prune_rate sn mdl h)
       = Inr (real (unpruned_sum sn h mdl) / real (elements_sum h mdl), prune_dict c)"
    using pos by (simp add: global_prune_rate_report[OF al] c t)
  then show ?thesis using c by (intro exI[of _ c] conjI)
qed

text \<open>
  C2, as stated, fails: on the small model two of six weights survive, the claim's value
  \<open>1 - 2/6\<close> is \<open>2/3\<close>, and \<open>global_prune_rate\<close> returns \<open>1/3\<close>.
\<close>

theorem global_prune_rate_counterexample:
  "aggregate_of (global_prune_rate GetGlobalSubnet example_model example_heap) = Inr (1/3)
   \<and> 1 - real (unpruned_sum GetGlobalSubnet example_heap example_model)
            / real (elements_sum example_heap example_model) = 2/3"
  by (simp add: aggregate_of_def ex_gpr ex_sums)

text \<open>
  C2, amended: when the model has a prunable layer and none of them is empty,
  \<open>global_prune_rate\<close> returns, as its aggregate, the sum of the nonzero mask counts
  divided by the sum of the element counts of the prunable layers: the fraction of weights
  kept (the function returns \<open>1 - final_prune_rate\<close>).
\<close>

theorem global_prune_rate_aggregate:
  assumes "allocated mdl h" and "nonempty_layers mdl h" and "prunable mdl \<noteq> []"
  shows "aggregate_of (global_prune_rate sn mdl h)
           = Inr (real (unpruned_sum sn h mdl) / real (elements_sum h mdl))"
proof -
  from global_prune_rate_returns[OF assms, of sn] show ?thesis
    by (auto simp: aggregate_of_def)
qed

lemma ex_nonempty: "nonempty_layers example_model example_heap"
  by (simp add: nonempty_layers_def prunable_def layer_elements_def example_model_def
      example_heap_def del: not_None_eq)

lemma ex_prunable: "prunable example_model =
     [(''conv1'', \<lparr>clamped_scores = 0, weight = 2, prune_threshold = Some (1/2)\<rparr>),
      (''fc'', \<lparr>clamped_scores = 4, weight = 5, prune_threshold = Some (1/2)\<rparr>)]"
  by (simp add: prunable_def example_model_def del: not_None_eq)

text \<open>
  C2, amended, on the small model.
\<close>

theorem global_prune_rate_aggregate_witness:
  "allocated example_model example_heap \<and> nonempty_layers example_model example_heap
   \<and> prunable example_model \<noteq> []
   \<and> aggregate_of (global_prune_rate GetGlobalSubnet example_model example_heap) = Inr (2 / 6)"
  using global_prune_rate_aggregate[OF ex_alloc ex_nonempty, of GetGlobalSubnet]
  by (simp add: ex_alloc ex_nonempty ex_prunable ex_sums)

text \<open>
  C6: for a prunable layer \<open>n\<close> of a model with distinct module names and no empty
  prunable layer, the entry of \<open>n\<close> in the returned dictionary is
  \<open>100 * (1 - countNonZero(mask) / totalElements)\<close> for that layer's mask, and the keys of
  the dictionary are exactly the names of the prunable layers.
\<close>

theorem global_prune_rate_layer_percentage:
  assumes "allocated mdl h" and "nonempty_layers mdl h" and "distinct (map fst mdl)"
    and "(n, m) \<in> set (prunable mdl)"
  shows "report_entry (global_prune_rate sn mdl h) n =
           Inr (Some (100 * (1 - real (count_nonzero (layer_mask sn h m))
                                  / real (layer_elements h m))))
       \<and> report_keys (global_prune_rate sn mdl h) = Inr (fst ` set (prunable mdl))"
proof -
  have pr: "prunable mdl \<noteq> []" using assms(4) by auto
  from global_prune_rate_returns[OF assms(1,2) pr, of sn] obtain c where
    c: "report_loop sn h mdl \<lparr>prune_dict = [], total_weights = 0, unpruned_weights = 0\<rparr> = Inr c"
    and g: "fst (global_prune_rate sn mdl h)
       = Inr (real (unpruned_sum sn h mdl) / real (elements_sum h mdl), prune_dict c)"
    by blast
  have "map_of (prune_dict c) n =
      Some (100 * (1 - real (count_nonzero (layer_mask sn h m)) / real (layer_elements h m)))"
    using c assms(3,4) by (rule report_loop_lookup)
  moreover have "fst ` set (prune_dict c) = fst ` set (prunable mdl)"
    using report_loop_keys[OF c] by simp
  ultimately show ?thesis by (simp add: report_entry_def report_keys_def g)
qed

text \<open>
  C6 on the small model: \<open>conv1\<close> keeps one weight of four.
\<close>

theorem global_prune_rate_layer_percentage_witness:
  "allocated example_model example_heap \<and> nonempty_layers example_model example_heap
   \<and> distinct (map fst example_model)
   \<and> (''conv1'', \<lparr>clamped_scores = 0, weight = 2, prune_threshold = Some (1/2)\<rparr>)
        \<in> set (prunable example_model)
   \<and> report_entry (global_prune_rate GetGlobalSubnet example_model example_heap) ''conv1''
        = Inr (Some 75)
   \<and> report_keys (global_prune_rate GetGlobalSubnet example_model example_heap)
        = Inr {''conv1'', ''fc''}"
proof -
  have d: "distinct (map fst example_model)" by (simp add: example_model_def)
  have i: "(''conv1'', \<lparr>clamped_scores = 0, weight = 2, prune_threshold = Some (1/2)\<rparr>)
        \<in> set (prunable example_model)" by (simp add: ex_prunable)
  have v: "count_nonzero (layer_mask GetGlobalSubnet example_heap
               \<lparr>clamped_scores = 0, weight = 2, prune_threshold = Some (1/2)\<rparr>) = 1"
      "layer_elements example_heap
               \<lparr>clamped_scores = 0, weight = 2, prune_threshold = Some (1/2)\<rparr> = 4"
    by (simp_all add: layer_mask_def layer_elements_def example_heap_def GetGlobalSubnet_def
        count_nonzero_def)
  have k: "fst ` set (prunable example_model) = {''conv1'', ''fc''}"
    by (simp add: ex_prunable)
  show ?thesis
    using global_prune_rate_layer_percentage[OF ex_alloc ex_nonempty d i, of GetGlobalSubnet]
    unfolding v k by (simp add: ex_alloc ex_nonempty d i)
qed

text \<open>
  C7: \<open>global_prune_rate\<close> leaves every cell of the store it starts in as it was (it
  writes to the clones only), hence the scores, the weights and the mask of every module;
  the modules' thresholds are not written at all. A second call, on the store the first
  one leaves, returns the same aggregate and the same dictionary (or the same error).
\<close>

theorem global_prune_rate_pure:
  assumes "allocated mdl h" and "(n, m) \<in> set mdl"
  shows "take (length h) (snd (global_prune_rate sn mdl h)) = h
       \<and> snd (global_prune_rate sn mdl h) ! clamped_scores m = h ! clamped_scores m
       \<and> snd (global_prune_rate sn mdl h) ! weight m = h ! weight m
       \<and> layer_mask sn (snd (global_prune_rate sn mdl h)) m = layer_mask sn h m
       \<and> fst (global_prune_rate sn mdl (snd (global_prune_rate sn mdl h)))
           = fst (global_prune_rate sn mdl h)"
proof -
  let ?h' = "snd (global_prune_rate sn mdl h)"
  have fr: "take (length h) ?h' = h" using assms(1) by (rule global_prune_rate_frame)
  have a: "clamped_scores m < length h" "weight m < length h"
    using assms by (auto simp: allocated_def)
  have s: "?h' ! clamped_scores m = h ! clamped_scores m" using fr a(1) by (rule prefix_nth)
  have w: "?h' ! weight m = h ! weight m" using fr a(2) by (rule prefix_nth)
  have "fst (global_prune_rate sn mdl ?h') = fst (global_prune_rate sn mdl h)"
    using assms(1) fr by (rule global_prune_rate_again)
  moreover have "layer_mask sn ?h' m = layer_mask sn h m"
    unfolding layer_mask_def s w ..
  ultimately show ?thesis using fr s w by blast
qed

text \<open>
  C7 on the small model.
\<close>

theorem global_prune_rate_pure_witness:
  "allocated example_model example_heap
   \<and> (''fc'', \<lparr>clamped_scores = 4, weight = 5, prune_threshold = Some (1/2)\<rparr>) \<in> set example_model
   \<and> take 6 (snd (global_prune_rate GetGlobalSubnet example_model example_heap)) = example_heap
   \<and> fst (global_prune_rate GetGlobalSubnet example_model
             (snd (global_prune_rate GetGlobalSubnet example_model example_heap)))
       = Inr (1/3, [(''conv1'', 75), (''fc'', 50)])"
proof -
  have i: "(''fc'', \<lparr>clamped_scores = 4, weight = 5, prune_threshold = Some (1/2)\<rparr>) \<in> set example_model"
    by (simp add: example_model_def)
  have l: "length example_heap = 6" by (simp add: example_heap_def)
  show ?thesis
    using global_prune_rate_pure[OF ex_alloc i, of GetGlobalSubnet]
    unfolding l by (simp add: ex_alloc i ex_gpr)
qed

section \<open>Properties of the epoch loop and of \<open>main_worker\<close>\<close>

lemma anneal_args:
  "args (anneal f e st) = (args st)\<lparr>prune_rate := prune_rate (args (anneal f e st))\<rparr>"
  by (simp add: anneal_def Let_def)

lemma anneal_rest:
  "model (anneal f e st) = model st" "heap (anneal f e st) = heap st"
  "events (anneal f e st) = events st" "best_acc1 (anneal f e st) = best_acc1 st"
  by (simp_all add: anneal_def Let_def)

lemma train_validate_args: "args (snd (train_validate E e st)) = args st"
  by (simp add: train_validate_def Let_def split: prod.splits option.splits)

lemma save_checkpoints_args: "args (snd (save_checkpoints e b st)) = args st"
  by (simp add: save_checkpoints_def Let_def)

lemma sample_prune_rate_args:
  "conv_type (args st) \<noteq> ''SampleSubnetConv'' \<Longrightarrow> snd (sample_prune_rate E e st) = st"
  by (simp add: sample_prune_rate_def)

lemma epoch_body_args:
  assumes "conv_type (args st) \<noteq> ''SampleSubnetConv''"
  shows "args (snd (epoch_body E f e st)) = args (anneal f e st)"
proof -
  let ?tv = "train_validate E e (anneal f e st)"
  have a: "args (snd ?tv) = args (anneal f e st)" by (rule train_validate_args)
  have c: "conv_type (args (anneal f e st)) \<noteq> ''SampleSubnetConv''"
    using assms by (subst anneal_args) simp
  show ?thesis
  proof (cases ?tv)
    case (Pair r st1)
    have a1: "args st1 = args (anneal f e st)" using a Pair by simp
    show ?thesis
    proof (cases r)
      case (Inl err)
      then show ?thesis using Pair a1 by (simp add: epoch_body_def)
    next
      case (Inr is_best)
      have s: "args (snd (save_checkpoints e is_best st1)) = args st1"
        by (rule save_checkpoints_args)
      show ?thesis
      proof (cases "save_checkpoints e is_best st1")
        case sc: (Pair r2 st2)
        have a2: "args st2 = args (anneal f e st)" using s sc a1 by simp
        have "snd (sample_prune_rate E e st2) = st2"
          using c a2 by (simp add: sample_prune_rate_args)
        then show ?thesis
          using Pair Inr sc a1 a2
          by (auto simp: epoch_body_def split: option.splits)
      qed
    qed
  qed
qed

lemma run_epochs_invariant:
  assumes step: "\<And>e s. P (args s) \<Longrightarrow> P (args (snd (epoch_body E f e s)))"
  shows "P (args st) \<Longrightarrow> P (args (snd (run_epochs E f es st)))"
proof (induction es arbitrary: st)
  case Nil
  then show ?case by simp
next
  case (Cons e es)
  have p: "P (args (snd (epoch_body E f e st)))" using Cons.prems by (rule step)
  show ?case
  proof (cases "epoch_body E f e st")
    case (Pair r st')
    then show ?thesis using p Cons.IH[of st'] by (cases r) auto
  qed
qed

lemma anneal_before:
  assumes "conv_type (args st) = ''GlobalSubnetConv''" "prune_rate (args st) \<le> 1/2"
    "e < prune_rate_epoch (args st)"
  shows "prune_rate (args (anneal f e st))
       = f + (1/2 - f) * (1 - real e / real (prune_rate_epoch (args st))) ^ 3"
  using assms by (simp add: anneal_def Let_def algebra_simps)

lemma anneal_at:
  assumes "conv_type (args st) = ''GlobalSubnetConv''" "e = prune_rate_epoch (args st)"
  shows "prune_rate (args (anneal f e st)) = f"
  using assms by (simp add: anneal_def)

lemma anneal_fields:
  "conv_type (args (anneal f e st)) = conv_type (args st)"
  "prune_rate_epoch (args (anneal f e st)) = prune_rate_epoch (args st)"
  by (subst anneal_args, simp)+

lemma decay_bounds:
  assumes "e \<le> n" "0 < n"
  shows "0 \<le> 1 - real e / real n" "1 - real e / real n \<le> 1"
  using assms by (simp_all add: divide_le_eq)


lemma cubic_le_half:
  assumes "f \<le> 1/2" "e < n"
  shows "f + (1/2 - f) * (1 - real e / real n) ^ 3 \<le> 1/2"
proof -
  have n: "0 < n" "e \<le> n" using assms by simp_all
  have "0 \<le> 1 - real e / real n" "1 - real e / real n \<le> 1"
    using decay_bounds[OF n(2) n(1)] by simp_all
  then have "(1 - real e / real n) ^ 3 \<le> 1" by (simp add: power_le_one)
  then have "(1/2 - f) * (1 - real e / real n) ^ 3 \<le> (1/2 - f) * 1"
    using assms(1) by (intro mult_left_mono) simp_all
  then show ?thesis by simp
qed


lemma anneal_keeps_low:
  assumes "f \<le> 1/2" "conv_type (args st) = ''GlobalSubnetConv''" "prune_rate (args st) \<le> 1/2"
  shows "prune_rate (args (anneal f e st)) \<le> 1/2"
proof -
  consider "e < prune_rate_epoch (args st)" | "e = prune_rate_epoch (args st)"
    | "prune_rate_epoch (args st) < e" by linarith
  then show ?thesis
  proof cases
    case 1
    then show ?thesis
      using assms cubic_le_half[OF assms(1) 1] by (simp add: anneal_before)
  next
    case 2
    then show ?thesis using assms by (simp add: anneal_at)
  next
    case 3
    then show ?thesis using assms by (simp add: anneal_def)
  qed
qed

lemma run_epochs_low:
  assumes "f \<le> 1/2" "conv_type (args st0) = ''GlobalSubnetConv''" "prune_rate (args st0) \<le> 1/2"
  shows "conv_type (args (snd (run_epochs E f es st0))) = ''GlobalSubnetConv''
       \<and> prune_rate_epoch (args (snd (run_epochs E f es st0))) = prune_rate_epoch (args st0)
       \<and> prune_rate (args (snd (run_epochs E f es st0))) \<le> 1/2"
proof -
  let ?P = "\<lambda>a. conv_type a = ''GlobalSubnetConv''
       \<and> prune_rate_epoch a = prune_rate_epoch (args st0) \<and> prune_rate a \<le> 1/2"
  have step: "?P (args (snd (epoch_body E f e s)))" if p: "?P (args s)" for e s
  proof -
    have "args (snd (epoch_body E f e s)) = args (anneal f e s)"
      using p by (intro epoch_body_args) simp
    moreover have "prune_rate (args (anneal f e s)) \<le> 1/2"
      using assms(1) p by (intro anneal_keeps_low) simp_all
    ultimately show ?thesis using p by (simp add: anneal_fields)
  qed
  have "?P (args (snd (run_epochs E f es st0)))"
    by (rule run_epochs_invariant[where P = ?P, OF step]) (use assms in simp_all)
  then show ?thesis .
qed

lemma run_epochs_constant:
  assumes "(conv_type (args st0) = ''GlobalSubnetConv'' \<and> 1/2 < f)
         \<or> (conv_type (args st0) \<noteq> ''GlobalSubnetConv''
             \<and> conv_type (args st0) \<noteq> ''SampleSubnetConv'')"
    and "prune_rate (args st0) = f"
  shows "conv_type (args (snd (run_epochs E f es st0))) = conv_type (args st0)
       \<and> prune_rate (args (snd (run_epochs E f es st0))) = f"
proof -
  let ?P = "\<lambda>a. conv_type a = conv_type (args st0) \<and> prune_rate a = f"
  have an: "prune_rate (args (anneal f e s)) = f" if p: "?P (args s)" for e s
    using assms(1) p by (auto simp: anneal_def Let_def)
  have step: "?P (args (snd (epoch_body E f e s)))" if p: "?P (args s)" for e s
  proof -
    have "conv_type (args s) \<noteq> ''SampleSubnetConv''" using assms(1) p by auto
    then have "args (snd (epoch_body E f e s)) = args (anneal f e s)"
      by (rule epoch_body_args)
    then show ?thesis using an[OF p] p by (simp add: anneal_fields)
  qed
  have "?P (args (snd (run_epochs E f es st0)))"
    by (rule run_epochs_invariant[where P = ?P, OF step]) (use assms in simp_all)
  then show ?thesis .
qed

lemma trained_append: "trained (xs @ ys) = trained xs @ trained ys"
  by (induction xs rule: trained.induct) simp_all

lemma pickle_dumps_append: "pickle_dumps (xs @ ys) = pickle_dumps xs @ pickle_dumps ys"
  by (induction xs rule: pickle_dumps.induct) simp_all

lemma csv_rows_append: "csv_rows (xs @ ys) = csv_rows xs @ csv_rows ys"
  by (induction xs rule: csv_rows.induct) simp_all

lemma saves_only:
  "list_all is_save cs \<Longrightarrow> trained cs = [] \<and> pickle_dumps cs = [] \<and> csv_rows cs = []"
proof (induction cs)
  case Nil
  then show ?case by simp
next
  case (Cons c cs)
  then show ?case by (cases c) simp_all
qed

lemma train_validate_events:
  "events (snd (train_validate E e st))
     = events st @ [Train e (prune_rate (args st)), Validate (Some e) (prune_rate (args st))]"
  by (simp add: train_validate_def Let_def split: prod.splits option.splits)

lemma save_checkpoints_events:
  "\<exists>cs. events (snd (save_checkpoints e b st)) = events st @ cs \<and> list_all is_save cs"
  by (simp add: save_checkpoints_def Let_def)

lemma sample_prune_rate_events: "events (snd (sample_prune_rate E e st)) = events st"
  by (simp add: sample_prune_rate_def Let_def)

lemma epoch_body_events:
  "\<exists>cs. events (snd (epoch_body E f e st))
          = events st @ [Train e (prune_rate (args (anneal f e st))),
                         Validate (Some e) (prune_rate (args (anneal f e st)))] @ cs
        \<and> list_all is_save cs"
proof -
  let ?r = "prune_rate (args (anneal f e st))"
  let ?tv = "train_validate E e (anneal f e st)"
  have ev: "events (snd ?tv) = events st @ [Train e ?r, Validate (Some e) ?r]"
    by (simp add: train_validate_events anneal_rest)
  show ?thesis
  proof (cases ?tv)
    case (Pair r st1)
    have e1: "events st1 = events st @ [Train e ?r, Validate (Some e) ?r]"
      using ev Pair by simp
    show ?thesis
    proof (cases r)
      case (Inl err)
      then show ?thesis using Pair e1 by (simp add: epoch_body_def)
    next
      case (Inr is_best)
      obtain cs where cs: "events (snd (save_checkpoints e is_best st1)) = events st1 @ cs"
        "list_all is_save cs"
        using save_checkpoints_events by blast
      show ?thesis
      proof (cases "save_checkpoints e is_best st1")
        case sc: (Pair r2 st2)
        have e2: "events st2 = events st1 @ cs" using cs(1) sc by simp
        have e3: "events (snd (sample_prune_rate E e st2)) = events st2"
          by (rule sample_prune_rate_events)
        have "events (snd (epoch_body E f e st)) = events st1
            \<or> events (snd (epoch_body E f e st)) = events st1 @ cs"
          using Pair Inr sc e2 e3
          by (auto simp: epoch_body_def split: option.splits)
        then show ?thesis
        proof
          assume "events (snd (epoch_body E f e st)) = events st1"
          then show ?thesis using e1 by (intro exI[of _ "[]"]) simp
        next
          assume "events (snd (epoch_body E f e st)) = events st1 @ cs"
          then show ?thesis using e1 cs(2) by (intro exI[of _ cs]) simp
        qed
      qed
    qed
  qed
qed

lemma epoch_body_trained:
  "trained (events (snd (epoch_body E f e st)))
     = trained (events st) @ [(e, prune_rate (args (anneal f e st)))]"
proof -
  obtain cs where "events (snd (epoch_body E f e st))
          = events st @ [Train e (prune_rate (args (anneal f e st))),
                         Validate (Some e) (prune_rate (args (anneal f e st)))] @ cs"
    "list_all is_save cs"
    using epoch_body_events by blast
  then show ?thesis using saves_only[of cs] by (simp add: trained_append)
qed

lemma epoch_body_reports:
  "pickle_dumps (events (snd (epoch_body E f e st))) = pickle_dumps (events st)
 \<and> csv_rows (events (snd (epoch_body E f e st))) = csv_rows (events st)"
proof -
  obtain cs where "events (snd (epoch_body E f e st))
          = events st @ [Train e (prune_rate (args (anneal f e st))),
                         Validate (Some e) (prune_rate (args (anneal f e st)))] @ cs"
    "list_all is_save cs"
    using epoch_body_events by blast
  then show ?thesis using saves_only[of cs] by (simp add: pickle_dumps_append csv_rows_append)
qed

lemma run_epochs_reports:
  "pickle_dumps (events (snd (run_epochs E f es st))) = pickle_dumps (events st)
 \<and> csv_rows (events (snd (run_epochs E f es st))) = csv_rows (events st)"
proof (induction es arbitrary: st)
  case Nil
  then show ?case by simp
next
  case (Cons e es)
  show ?case
  proof (cases "epoch_body E f e st")
    case (Pair r st')
    have "pickle_dumps (events st') = pickle_dumps (events st)
        \<and> csv_rows (events st') = csv_rows (events st)"
      using epoch_body_reports[of E f e st] Pair by simp
    then show ?thesis using Pair Cons.IH[of st'] by (cases r) auto
  qed
qed

lemmas run_defs = epoch_body_def train_validate_def save_checkpoints_def sample_prune_rate_def
  anneal_def example_env_def example_args_def example_start_def Let_def

lemma ex_setup:
  "\<not> (ct \<noteq> ''DenseConv'' \<and> ct \<noteq> ''SampleSubnetConv'' \<and> ct \<noteq> ''ContinuousSparseConv'' \<and> r < 0)
   \<Longrightarrow> worker_setup (example_env v) (example_args ct r) = Inr (example_start ct r)"
  by (auto simp: worker_setup_def get_model_def start_state_def example_env_def example_args_def
      example_start_def Let_def)

lemma ex_global_epoch0:
  "fst (run_epochs (example_env 60) (3/10) [0] (example_start ''GlobalSubnetConv'' (3/10))) = None"
  by (simp add: run_defs)

lemma ex_global_start:
  "conv_type (args (example_start ''GlobalSubnetConv'' r)) = ''GlobalSubnetConv''"
  "prune_rate (args (example_start ct r)) = r"
  "prune_rate_epoch (args (example_start ct r)) = 2"
  by (simp_all add: example_start_def example_args_def)

text \<open>
  C1: in a run in global pruning mode whose configured rate \<open>f\<close> (the loop's
  \<open>final_prune_rate\<close>) is at most 0.5, whenever the epoch loop has completed some epochs
  \<open>es\<close> and comes to an epoch below \<open>prune_rate_epoch\<close>, the annealing step of that
  epoch sets \<open>args.prune_rate\<close> to \<open>f + (0.5 - f) * d\<close> with
  \<open>d = (1 - epoch / prune_rate_epoch) ^ 3\<close>; its complement is the blend of 0.5 (weight
  \<open>d\<close>) and \<open>1 - f\<close> (weight \<open>1 - d\<close>); at epoch 0 the rate is exactly 0.5; and
  the trainer is called with this rate in that epoch. In \<open>main_worker\<close> the state
  \<open>st0\<close> is the one \<open>worker_setup\<close> returns and \<open>es\<close> are the epochs from
  \<open>first_epoch st0\<close> up to the one before \<open>epoch\<close>.
\<close>

theorem anneal_cubic_schedule:
  assumes "conv_type (args st0) = ''GlobalSubnetConv''"
    and "prune_rate (args st0) \<le> 0.5"
    and "run_epochs E (prune_rate (args st0)) es st0 = (None, st)"
    and "epoch < prune_rate_epoch (args st0)"
  shows "prune_rate (args (anneal (prune_rate (args st0)) epoch st))
           = prune_rate (args st0) + (0.5 - prune_rate (args st0))
               * (1 - real epoch / real (prune_rate_epoch (args st0))) ^ 3
       \<and> 1 - prune_rate (args (anneal (prune_rate (args st0)) epoch st))
           = 0.5 * (1 - real epoch / real (prune_rate_epoch (args st0))) ^ 3
             + (1 - prune_rate (args st0))
               * (1 - (1 - real epoch / real (prune_rate_epoch (args st0))) ^ 3)
       \<and> (epoch = 0 \<longrightarrow> prune_rate (args (anneal (prune_rate (args st0)) epoch st)) = 0.5)
       \<and> trained (events (snd (epoch_body E (prune_rate (args st0)) epoch st)))
           = trained (events st) @
             [(epoch, prune_rate (args st0) + (0.5 - prune_rate (args st0))
               * (1 - real epoch / real (prune_rate_epoch (args st0))) ^ 3)]"
proof -
  let ?f = "prune_rate (args st0)"
  let ?n = "prune_rate_epoch (args st0)"
  have f: "?f \<le> 1/2" using assms(2) by simp
  have st: "st = snd (run_epochs E ?f es st0)" using assms(3) by simp
  have inv: "conv_type (args st) = ''GlobalSubnetConv''" "prune_rate_epoch (args st) = ?n"
    "prune_rate (args st) \<le> 1/2"
    using run_epochs_low[OF f assms(1) f, of E es] st by simp_all
  have e: "epoch < prune_rate_epoch (args st)" using assms(4) inv(2) by simp
  have r: "prune_rate (args (anneal ?f epoch st))
       = ?f + (1/2 - ?f) * (1 - real epoch / real ?n) ^ 3"
    using anneal_before[OF inv(1) inv(3) e, of ?f] inv(2) by simp
  have t: "trained (events (snd (epoch_body E ?f epoch st)))
       = trained (events st) @ [(epoch, ?f + (1/2 - ?f) * (1 - real epoch / real ?n) ^ 3)]"
    using epoch_body_trained[of E ?f epoch st] r by simp
  have z: "epoch = 0 \<longrightarrow> prune_rate (args (anneal ?f epoch st)) = 1/2"
    unfolding r by simp
  have k: "1 - prune_rate (args (anneal ?f epoch st))
       = 1/2 * (1 - real epoch / real ?n) ^ 3 + (1 - ?f) * (1 - (1 - real epoch / real ?n) ^ 3)"
    unfolding r by (simp add: algebra_simps)
  show ?thesis using r t z k by simp
qed

text \<open>
  C1 on the small run: after epoch 0, epoch 1 of 2 gets \<open>3/10 + 2/10 * (1/2)^3 = 13/40\<close>.
\<close>

theorem anneal_cubic_schedule_witness:
  "conv_type (args (example_start ''GlobalSubnetConv'' (3/10))) = ''GlobalSubnetConv''
   \<and> prune_rate (args (example_start ''GlobalSubnetConv'' (3/10))) \<le> 0.5
   \<and> fst (run_epochs (example_env 60) (3/10) [0] (example_start ''GlobalSubnetConv'' (3/10))) = None
   \<and> (1::nat) < prune_rate_epoch (args (example_start ''GlobalSubnetConv'' (3/10)))
   \<and> prune_rate (args (anneal (3/10) 1
         (snd (run_epochs (example_env 60) (3/10) [0] (example_start ''GlobalSubnetConv'' (3/10))))))
       = 13/40"
proof -
  let ?init = "example_start ''GlobalSubnetConv'' (3/10)"
  have a: "conv_type (args ?init) = ''GlobalSubnetConv''" by (rule ex_global_start)
  have b: "prune_rate (args ?init) \<le> 0.5" by (simp add: ex_global_start)
  have c: "run_epochs (example_env 60) (prune_rate (args ?init)) [0] ?init
      = (None, snd (run_epochs (example_env 60) (3/10) [0] ?init))"
    using ex_global_epoch0 by (simp add: ex_global_start prod_eq_iff)
  have d: "1 < prune_rate_epoch (args ?init)" by (simp add: ex_global_start)
  have v: "(3/10 :: real) + (0.5 - 3/10) * (1 - real (1::nat) / real (2::nat)) ^ 3 = 13/40"
    by (simp add: power3_eq_cube)
  show ?thesis
    using anneal_cubic_schedule[OF a b c d] ex_global_epoch0 v
    by (simp add: ex_global_start)
qed






text \<open>
  C4, amended: in global mode with a configured rate above 0.5, and in every mode other
  than \<open>GlobalSubnetConv\<close> and \<open>SampleSubnetConv\<close>, \<open>args.prune_rate\<close> is the
  configured value after any number of epochs of the loop (however the loop ends), the
  annealing step of any epoch leaves it there, and the trainer is called with it.
\<close>

theorem prune_rate_constant:
  assumes "(conv_type (args st0) = ''GlobalSubnetConv'' \<and> 0.5 < prune_rate (args st0))
         \<or> (conv_type (args st0) \<noteq> ''GlobalSubnetConv''
             \<and> conv_type (args st0) \<noteq> ''SampleSubnetConv'')"
    and "run_epochs E (prune_rate (args st0)) es st0 = (r, st)"
  shows "prune_rate (args st) = prune_rate (args st0)
       \<and> prune_rate (args (anneal (prune_rate (args st0)) epoch st)) = prune_rate (args st0)
       \<and> trained (events (snd (epoch_body E (prune_rate (args st0)) epoch st)))
           = trained (events st) @ [(epoch, prune_rate (args st0))]"
proof -
  let ?f = "prune_rate (args st0)"
  have c: "(conv_type (args st0) = ''GlobalSubnetConv'' \<and> 1/2 < ?f)
         \<or> (conv_type (args st0) \<noteq> ''GlobalSubnetConv''
             \<and> conv_type (args st0) \<noteq> ''SampleSubnetConv'')"
    using assms(1) by simp
  have st: "st = snd (run_epochs E ?f es st0)" using assms(2) by simp
  have inv: "conv_type (args st) = conv_type (args st0)" "prune_rate (args st) = ?f"
    using run_epochs_constant[OF c refl, of E es] st by simp_all
  have an: "prune_rate (args (anneal ?f epoch st)) = ?f"
    using c inv by (auto simp: anneal_def Let_def)
  show ?thesis
    using inv(2) an epoch_body_trained[of E ?f epoch st] by simp
qed

text \<open>
  C4, amended, on the small run in global mode with rate 6/10.
\<close>

theorem prune_rate_constant_witness:
  "((conv_type (args (example_start ''GlobalSubnetConv'' (6/10))) = ''GlobalSubnetConv''
      \<and> 0.5 < prune_rate (args (example_start ''GlobalSubnetConv'' (6/10))))
    \<or> (conv_type (args (example_start ''GlobalSubnetConv'' (6/10))) \<noteq> ''GlobalSubnetConv''
      \<and> conv_type (args (example_start ''GlobalSubnetConv'' (6/10))) \<noteq> ''SampleSubnetConv''))
   \<and> prune_rate (args (snd (run_epochs (example_env 60) (6/10) [0]
         (example_start ''GlobalSubnetConv'' (6/10))))) = 6/10
   \<and> prune_rate (args (anneal (6/10) 1 (snd (run_epochs (example_env 60) (6/10) [0]
         (example_start ''GlobalSubnetConv'' (6/10)))))) = 6/10"
proof -
  let ?init = "example_start ''GlobalSubnetConv'' (6/10)"
  have a: "(conv_type (args ?init) = ''GlobalSubnetConv'' \<and> 0.5 < prune_rate (args ?init))
    \<or> (conv_type (args ?init) \<noteq> ''GlobalSubnetConv''
      \<and> conv_type (args ?init) \<noteq> ''SampleSubnetConv'')"
    by (simp add: ex_global_start)
  have b: "run_epochs (example_env 60) (prune_rate (args ?init)) [0] ?init
     = (fst (run_epochs (example_env 60) (6/10) [0] ?init),
        snd (run_epochs (example_env 60) (6/10) [0] ?init))"
    by (simp add: ex_global_start)
  show ?thesis
    using prune_rate_constant[OF a b, of 1] a by (simp add: ex_global_start)
qed

lemma ex_main:
  assumes "\<not> (ct \<noteq> ''DenseConv'' \<and> ct \<noteq> ''SampleSubnetConv'' \<and> ct \<noteq> ''ContinuousSparseConv'' \<and> r < 0)"
  shows "main_worker (example_env v) (example_args ct r) =
     (case run_epochs (example_env v) r [0, 1, 2] (example_start ct r) of
        (Some e, st') \<Rightarrow> (Some e, st')
      | (None, st') \<Rightarrow> finalize (example_env v) st')"
proof -
  have "[first_epoch (example_start ct r) ..< epochs (args (example_start ct r))] = [0, 1, 2]"
    by (simp add: first_epoch_def example_start_def example_args_def upt_rec)
  then show ?thesis
    by (simp add: main_worker_def ex_setup[OF assms] ex_global_start)
qed

text \<open>
  C4, as stated, fails in the non-global mode \<open>SampleSubnetConv\<close>: the run is
  configured with 3/10, and after epoch 0 the rate is the average sampled rate 1/4, with
  which epochs 1 and 2 are trained.
\<close>

theorem sample_mode_rate_counterexample:
  "conv_type (example_args ''SampleSubnetConv'' (3/10)) \<noteq> ''GlobalSubnetConv''
   \<and> prune_rate (example_args ''SampleSubnetConv'' (3/10)) = 3/10
   \<and> fst (main_worker (example_env 60) (example_args ''SampleSubnetConv'' (3/10))) = None
   \<and> trained (events (snd (main_worker (example_env 60)
         (example_args ''SampleSubnetConv'' (3/10))))) = [(0, 3/10), (1, 1/4), (2, 1/4)]"
  by (simp add: ex_main) (simp add: finalize_def write_result_to_csv_def run_defs)

text \<open>
  C9: the annealing step of any epoch returns the state it was given with at most
  \<open>args.prune_rate\<close> changed: the model, the store of its score and weight tensors and
  the mask of every module are the same.
\<close>

theorem anneal_frame:
  "anneal f e st = st\<lparr>args := (args st)\<lparr>prune_rate := prune_rate (args (anneal f e st))\<rparr>\<rparr>
   \<and> model (anneal f e st) = model st
   \<and> heap (anneal f e st) = heap st
   \<and> layer_mask sn (heap (anneal f e st)) m = layer_mask sn (heap st) m"
  by (simp add: anneal_def Let_def)

text \<open>
  C9 at epoch 1 of the small run.
\<close>

theorem anneal_frame_witness:
  "prune_rate (args (anneal (3/10) 1 (example_start ''GlobalSubnetConv'' (1/2)))) = 13/40
   \<and> model (anneal (3/10) 1 (example_start ''GlobalSubnetConv'' (1/2))) = example_model
   \<and> heap (anneal (3/10) 1 (example_start ''GlobalSubnetConv'' (1/2))) = example_heap"
proof -
  have "prune_rate (args (anneal (3/10) 1 (example_start ''GlobalSubnetConv'' (1/2)))) = 13/40"
    by (simp add: anneal_def example_start_def example_args_def Let_def power3_eq_cube)
  moreover have "model (example_start ''GlobalSubnetConv'' (1/2)) = example_model"
    "heap (example_start ''GlobalSubnetConv'' (1/2)) = example_heap"
    by (simp_all add: example_start_def)
  ultimately show ?thesis
    using anneal_frame[of "3/10" 1 "example_start ''GlobalSubnetConv'' (1/2)"]
    by simp
qed

lemma run_epochs_append:
  "run_epochs E f (es @ es') st =
     (case run_epochs E f es st of
        (Some e, st') \<Rightarrow> (Some e, st')
      | (None, st') \<Rightarrow> run_epochs E f es' st')"
  by (induction es arbitrary: st) (auto split: prod.splits option.splits)

lemma sample_prune_rate_conv:
  "conv_type (args (snd (sample_prune_rate E e st))) = conv_type (args st)"
  by (simp add: sample_prune_rate_def Let_def)

lemma epoch_body_conv:
  "conv_type (args (snd (epoch_body E f e st))) = conv_type (args st)"
proof -
  let ?tv = "train_validate E e (anneal f e st)"
  have a: "conv_type (args (snd ?tv)) = conv_type (args st)"
    by (simp add: train_validate_args anneal_fields)
  show ?thesis
  proof (cases ?tv)
    case (Pair r st1)
    have a1: "conv_type (args st1) = conv_type (args st)" using a Pair by simp
    show ?thesis
    proof (cases r)
      case (Inl err)
      then show ?thesis using Pair a1 by (simp add: epoch_body_def)
    next
      case (Inr is_best)
      show ?thesis
      proof (cases "save_checkpoints e is_best st1")
        case sc: (Pair r2 st2)
        have a2: "conv_type (args st2) = conv_type (args st)"
          using save_checkpoints_args[of e is_best st1] sc a1 by simp
        have "conv_type (args (snd (sample_prune_rate E e st2))) = conv_type (args st)"
          using a2 by (simp add: sample_prune_rate_conv)
        then show ?thesis
          using Pair Inr sc a1 a2
          by (auto simp: epoch_body_def split: option.splits)
      qed
    qed
  qed
qed

lemma run_epochs_conv:
  "conv_type (args (snd (run_epochs E f es st))) = conv_type (args st)"
  by (rule run_epochs_invariant[where P = "\<lambda>a. conv_type a = conv_type (args st)"])
     (simp_all add: epoch_body_conv)

lemma get_model_events: "events (snd (get_model E st)) = events st"
  by (simp add: get_model_def Let_def)

lemma worker_setup_reports:
  assumes "worker_setup E a = Inr st0"
  shows "pickle_dumps (events st0) = [] \<and> csv_rows (events st0) = []"
proof -
  obtain r st1 where g: "get_model E (start_state a) = (r, st1)"
    by (cases "get_model E (start_state a)")
  have e1: "events st1 = []"
    using get_model_events[of E "start_state a"] g by (simp add: start_state_def)
  show ?thesis
    using assms g e1
    by (auto simp: worker_setup_def resume_checkpoint_def Let_def
        split: option.splits prod.splits if_splits)
qed

text \<open>
  C5, as stated, fails: with \<open>conv_type = DenseConv\<close> and the negative rate -1/2 the
  run raises nothing and trains all three epochs.
\<close>

theorem get_model_counterexample:
  "prune_rate (example_args ''DenseConv'' (- 1/2)) < 0
   \<and> fst (main_worker (example_env 60) (example_args ''DenseConv'' (- 1/2))) = None
   \<and> trained (events (snd (main_worker (example_env 60) (example_args ''DenseConv'' (- 1/2)))))
       = [(0, - 1/2), (1, - 1/2), (2, - 1/2)]"
  by (simp add: ex_main) (simp add: finalize_def write_result_to_csv_def run_defs)

text \<open>
  C5, amended: when the rate is negative and \<open>conv_type\<close> is none of \<open>DenseConv\<close>,
  \<open>SampleSubnetConv\<close>, \<open>ContinuousSparseConv\<close>, \<open>main_worker\<close> ends with
  \<open>ValueError("Need to set a positive prune rate")\<close> from \<open>get_model\<close>, before
  any call of the trainer or of a storage collaborator; in every other case (a rate above 1,
  or one of the three modes) \<open>get_model\<close> raises nothing.
\<close>

theorem get_model_negative_rate:
  "(if conv_type a \<noteq> ''DenseConv'' \<and> conv_type a \<noteq> ''SampleSubnetConv''
       \<and> conv_type a \<noteq> ''ContinuousSparseConv'' \<and> prune_rate a < 0
    then fst (main_worker E a) = Some (ValueError ''Need to set a positive prune rate'')
         \<and> events (snd (main_worker E a)) = []
    else fst (get_model E (start_state a)) = None)"
  by (simp add: main_worker_def worker_setup_def get_model_def start_state_def Let_def)

text \<open>
  C5, amended, in global mode: -1/2 is rejected, 3/2 is not.
\<close>

theorem get_model_negative_rate_witness:
  "fst (main_worker (example_env 60) (example_args ''GlobalSubnetConv'' (- 1/2)))
      = Some (ValueError ''Need to set a positive prune rate'')
   \<and> events (snd (main_worker (example_env 60) (example_args ''GlobalSubnetConv'' (- 1/2)))) = []
   \<and> fst (get_model (example_env 60) (start_state (example_args ''GlobalSubnetConv'' (3/2)))) = None"
  using get_model_negative_rate[of "example_args ''GlobalSubnetConv'' (- 1/2)" "example_env 60"]
    get_model_negative_rate[of "example_args ''GlobalSubnetConv'' (3/2)" "example_env 60"]
  by (simp add: example_args_def)

lemma finalize_pickled:
  assumes "conv_type (args st) = ''GlobalSubnetConv''"
    and "global_prune_rate (GetGlobalSubnet_apply E) (model st) (heap st) = (Inr (g, d), h')"
  shows "\<exists>ws. events (snd (finalize E st)) = events st @ PickleDump d # ws
            \<and> pickle_dumps ws = []"
  using assms
  by (auto simp: finalize_def write_result_to_csv_def split: option.splits)

text \<open>
  C8, amended: in a run in global pruning mode that reaches the epoch loop, completes it
  and whose \<open>global_prune_rate\<close> returns, the dictionary returned by
  \<open>global_prune_rate\<close> on the final model is handed to \<open>pickle.dump\<close> exactly once in
  the whole run, right after the last event of the loop.
\<close>

theorem report_pickled_once:
  assumes "worker_setup E a = Inr st0"
    and "conv_type (args st0) = ''GlobalSubnetConv''"
    and "run_epochs E (prune_rate (args st0)) [first_epoch st0 ..< epochs (args st0)] st0
           = (None, st)"
    and "global_prune_rate (GetGlobalSubnet_apply E) (model st) (heap st) = (Inr (g, d), h')"
  shows "pickle_dumps (events (snd (main_worker E a))) = [d]
       \<and> take (Suc (length (events st))) (events (snd (main_worker E a)))
           = events st @ [PickleDump d]"
proof -
  have m: "main_worker E a = finalize E st"
    using assms(1,3) by (simp add: main_worker_def)
  have st: "st = snd (run_epochs E (prune_rate (args st0))
                        [first_epoch st0 ..< epochs (args st0)] st0)"
    using assms(3) by simp
  have c: "conv_type (args st) = ''GlobalSubnetConv''"
    using run_epochs_conv[of E "prune_rate (args st0)" "[first_epoch st0 ..< epochs (args st0)]" st0]
      st assms(2) by simp
  have p: "pickle_dumps (events st) = []"
    using run_epochs_reports[of E "prune_rate (args st0)"
        "[first_epoch st0 ..< epochs (args st0)]" st0]
      worker_setup_reports[OF assms(1)] st by simp
  obtain ws where ws: "events (snd (finalize E st)) = events st @ PickleDump d # ws"
    "pickle_dumps ws = []"
    using finalize_pickled[OF c assms(4)] by blast
  show ?thesis using ws p by (simp add: m pickle_dumps_append)
qed

text \<open>
  C10: in a run that reaches the epoch loop, if in an epoch \<open>epoch > 1\<close> of the loop's
  range, reached after the epochs \<open>es\<close> before it, training and validation leave a best
  top-1 accuracy \<open>b < 2\<close>, then \<open>main_worker\<close> ends there with
  \<open>SystemExit("Terminating early: Network is not learning")\<close>, in the state validation
  left: \<open>global_prune_rate\<close> has not run, nothing was pickled and no CSV row was written.
\<close>

theorem early_exit:
  assumes "worker_setup E a = Inr st0"
    and "[first_epoch st0 ..< epochs (args st0)] = es @ epoch # rest"
    and "run_epochs E (prune_rate (args st0)) es st0 = (None, st)"
    and "1 < epoch"
    and "train_validate E epoch (anneal (prune_rate (args st0)) epoch st) = (Inr is_best, st1)"
    and "best_acc1 st1 = Some b" and "b < 2"
  shows "main_worker E a
           = (Some (SystemExit ''Terminating early: Network is not learning''), st1)
       \<and> pickle_dumps (events st1) = [] \<and> csv_rows (events st1) = []"
proof -
  let ?f = "prune_rate (args st0)"
  have body: "epoch_body E ?f epoch st
        = (Some (SystemExit ''Terminating early: Network is not learning''), st1)"
    using assms(4-7) by (simp add: epoch_body_def)
  have "run_epochs E ?f (es @ epoch # rest) st0
        = (Some (SystemExit ''Terminating early: Network is not learning''), st1)"
    using assms(3) body by (simp add: run_epochs_append)
  then have m: "main_worker E a
        = (Some (SystemExit ''Terminating early: Network is not learning''), st1)"
    using assms(1,2) by (simp add: main_worker_def)
  have st: "st = snd (run_epochs E ?f es st0)" using assms(3) by simp
  have p: "pickle_dumps (events st) = []" "csv_rows (events st) = []"
    using run_epochs_reports[of E ?f es st0] worker_setup_reports[OF assms(1)] st by simp_all
  have "events st1 = events st @ [Train epoch (prune_rate (args (anneal ?f epoch st))),
                                  Validate (Some epoch) (prune_rate (args (anneal ?f epoch st)))]"
    using train_validate_events[of E epoch "anneal ?f epoch st"] assms(5)
    by (simp add: anneal_rest)
  then have "pickle_dumps (events st1) = []" "csv_rows (events st1) = []"
    using p by (simp_all add: pickle_dumps_append csv_rows_append)
  then show ?thesis using m by simp
qed

lemma ex_range:
  "[first_epoch (example_start ct r) ..< epochs (args (example_start ct r))] = [0, 1, 2]"
  by (simp add: first_epoch_def example_start_def example_args_def upt_rec)

lemma ex_global_run:
  "run_epochs (example_env 60) (3/10) [0, 1, 2] (example_start ''GlobalSubnetConv'' (3/10))
     = (None,
        \<lparr>args = (example_args ''GlobalSubnetConv'' (3/10))\<lparr>start_epoch := Some 0\<rparr>,
         model = example_model, heap = example_heap, acc1 = Some 60, acc5 = 95,
         best_acc1 = Some 60, best_acc5 = 95, best_train_acc1 = 50, best_train_acc5 = 90,
         events =
           [SaveCheckpoint initial_state 0 (3/10) False False,
            Train 0 (1/2), Validate (Some 0) (1/2),
            SaveCheckpoint epoch_most_recent 1 (1/2) True False,
            SaveCheckpoint (epoch_state 0) 1 (1/2) True False,
            Train 1 (13/40), Validate (Some 1) (13/40),
            Train 2 (3/10), Validate (Some 2) (3/10),
            SaveCheckpoint epoch_most_recent 3 (3/10) False False,
            SaveCheckpoint (epoch_state 2) 3 (3/10) False False]\<rparr>)"
  by (simp add: run_defs power3_eq_cube)

text \<open>
  C8, as stated, fails: the small run in global mode completes, the aggregate computed by
  \<open>global_prune_rate\<close> is 1/3, and what reaches the storage collaborators is the
  dictionary alone (\<open>pickle.dump\<close>) and a CSV row whose prune rate is
  \<open>args.prune_rate = 3/10\<close>.
\<close>

theorem report_handoff_counterexample:
  "conv_type (example_args ''GlobalSubnetConv'' (3/10)) = ''GlobalSubnetConv''
   \<and> fst (main_worker (example_env 60) (example_args ''GlobalSubnetConv'' (3/10))) = None
   \<and> events (snd (main_worker (example_env 60) (example_args ''GlobalSubnetConv'' (3/10))))
       = [SaveCheckpoint initial_state 0 (3/10) False False,
          Train 0 (1/2), Validate (Some 0) (1/2),
          SaveCheckpoint epoch_most_recent 1 (1/2) True False,
          SaveCheckpoint (epoch_state 0) 1 (1/2) True False,
          Train 1 (13/40), Validate (Some 1) (13/40),
          Train 2 (3/10), Validate (Some 2) (3/10),
          SaveCheckpoint epoch_most_recent 3 (3/10) False False,
          SaveCheckpoint (epoch_state 2) 3 (3/10) False False,
          PickleDump [(''conv1'', 75), (''fc'', 50)],
          WriteCsv \<lparr>csv_best_acc1 = 60, csv_best_acc5 = 95, csv_best_train_acc1 = 50,
                    csv_best_train_acc5 = 90, csv_prune_rate = 3/10,
                    csv_curr_acc1 = 60, csv_curr_acc5 = 95, csv_epochs = 3\<rparr>]
   \<and> aggregate_of (global_prune_rate GetGlobalSubnet example_model example_heap) = Inr (1/3)"
proof -
  have g: "GetGlobalSubnet_apply (example_env 60) = GetGlobalSubnet"
    by (simp add: example_env_def)
  have m: "main_worker (example_env 60) (example_args ''GlobalSubnetConv'' (3/10))
      = finalize (example_env 60)
          (snd (run_epochs (example_env 60) (3/10) [0, 1, 2]
                  (example_start ''GlobalSubnetConv'' (3/10))))"
    using ex_main[of "''GlobalSubnetConv''" "3/10" 60] unfolding ex_global_run by simp
  show ?thesis
    unfolding m ex_global_run
    by (simp add: finalize_def g ex_gpr write_result_to_csv_def aggregate_of_def
        example_args_def)
qed

text \<open>
  C8, amended, on the small run.
\<close>

theorem report_pickled_once_witness:
  "worker_setup (example_env 60) (example_args ''GlobalSubnetConv'' (3/10))
      = Inr (example_start ''GlobalSubnetConv'' (3/10))
   \<and> conv_type (args (example_start ''GlobalSubnetConv'' (3/10))) = ''GlobalSubnetConv''
   \<and> fst (run_epochs (example_env 60) (3/10) [0, 1, 2]
            (example_start ''GlobalSubnetConv'' (3/10))) = None
   \<and> fst (global_prune_rate GetGlobalSubnet example_model example_heap)
      = Inr (1/3, [(''conv1'', 75), (''fc'', 50)])
   \<and> pickle_dumps (events (snd (main_worker (example_env 60)
         (example_args ''GlobalSubnetConv'' (3/10))))) = [[(''conv1'', 75), (''fc'', 50)]]"
proof -
  let ?E = "example_env 60"
  let ?init = "example_start ''GlobalSubnetConv'' (3/10)"
  let ?st = "snd (run_epochs ?E (3/10) [0, 1, 2] ?init)"
  have s: "worker_setup ?E (example_args ''GlobalSubnetConv'' (3/10)) = Inr ?init"
    by (simp add: ex_setup)
  have c: "conv_type (args ?init) = ''GlobalSubnetConv''" by (rule ex_global_start)
  have r: "run_epochs ?E (prune_rate (args ?init)) [first_epoch ?init ..< epochs (args ?init)] ?init
       = (None, ?st)"
    unfolding ex_range ex_global_start(2) ex_global_run by simp
  have ga: "GetGlobalSubnet_apply ?E = GetGlobalSubnet" by (simp add: example_env_def)
  have g: "global_prune_rate (GetGlobalSubnet_apply ?E) (model ?st) (heap ?st)
       = (Inr (1/3, [(''conv1'', 75), (''fc'', 50)]),
          example_heap @ [[9/10, 1/10, 2/10, 1/20], [1, 2, 3, 4], [6/10, 3/10], [5, 6]])"
    unfolding ex_global_run ga by (simp add: ex_gpr)
  have f: "fst (run_epochs ?E (3/10) [0, 1, 2] ?init) = None"
    unfolding ex_global_run by simp
  have v: "fst (global_prune_rate GetGlobalSubnet example_model example_heap)
      = Inr (1/3, [(''conv1'', 75), (''fc'', 50)])"
    unfolding ex_gpr by simp
  show ?thesis
    using report_pickled_once[OF s c r g] s c f v by blast
qed

lemma ex_low_run:
  "fst (run_epochs (example_env 1) (3/10) [0, 1] (example_start ''GlobalSubnetConv'' (3/10))) = None"
  by (simp add: run_defs)

lemma ex_low_epoch2:
  "fst (train_validate (example_env 1) 2 (anneal (3/10) 2
      (snd (run_epochs (example_env 1) (3/10) [0, 1] (example_start ''GlobalSubnetConv'' (3/10))))))
    = Inr False"
  "best_acc1 (snd (train_validate (example_env 1) 2 (anneal (3/10) 2
      (snd (run_epochs (example_env 1) (3/10) [0, 1] (example_start ''GlobalSubnetConv'' (3/10)))))))
    = Some 1"
  by (simp_all add: run_defs)

text \<open>
  C10 on the small run with validation accuracy 1: the exit comes in epoch 2.
\<close>

theorem early_exit_witness:
  "worker_setup (example_env 1) (example_args ''GlobalSubnetConv'' (3/10))
      = Inr (example_start ''GlobalSubnetConv'' (3/10))
   \<and> fst (run_epochs (example_env 1) (3/10) [0, 1]
            (example_start ''GlobalSubnetConv'' (3/10))) = None
   \<and> (1::nat) < 2 \<and> (1::real) < 2
   \<and> fst (main_worker (example_env 1) (example_args ''GlobalSubnetConv'' (3/10)))
        = Some (SystemExit ''Terminating early: Network is not learning'')
   \<and> pickle_dumps (events (snd (main_worker (example_env 1)
         (example_args ''GlobalSubnetConv'' (3/10))))) = []
   \<and> csv_rows (events (snd (main_worker (example_env 1)
         (example_args ''GlobalSubnetConv'' (3/10))))) = []"
proof -
  let ?E = "example_env 1"
  let ?init = "example_start ''GlobalSubnetConv'' (3/10)"
  let ?st = "snd (run_epochs ?E (3/10) [0, 1] ?init)"
  let ?tv = "train_validate ?E 2 (anneal (prune_rate (args ?init)) 2 ?st)"
  have s: "worker_setup ?E (example_args ''GlobalSubnetConv'' (3/10)) = Inr ?init"
    by (simp add: ex_setup)
  have rg: "[first_epoch ?init ..< epochs (args ?init)] = [0, 1] @ 2 # []"
    by (simp add: ex_range)
  have r: "run_epochs ?E (prune_rate (args ?init)) [0, 1] ?init = (None, ?st)"
    using surjective_pairing[of "run_epochs ?E (3/10) [0, 1] ?init"]
    unfolding ex_low_run ex_global_start(2) .
  have e: "(1::nat) < 2" by simp
  have tv: "?tv = (Inr False, snd ?tv)"
    using surjective_pairing[of ?tv]
    unfolding ex_global_start(2) ex_low_epoch2(1) .
  have b: "best_acc1 (snd ?tv) = Some 1"
    unfolding ex_global_start(2) by (rule ex_low_epoch2(2))
  have l: "(1::real) < 2" by simp
  have m: "main_worker ?E (example_args ''GlobalSubnetConv'' (3/10))
      = (Some (SystemExit ''Terminating early: Network is not learning''), snd ?tv)"
    and p: "pickle_dumps (events (snd ?tv)) = []" and q: "csv_rows (events (snd ?tv)) = []"
    using early_exit[OF s rg r e tv b l] by blast+
  show ?thesis
    unfolding m using s ex_low_run e l p q by simp
qed

end
